theory Spec2Isabelle
  imports Main
begin

section \<open>The HTTP request surface of the pipeline agent (http.go)\<close>

text \<open>
  The handlers of http.go are embedded as functions from the engine and the request to the
  sequence of operations the handler performs (on the response, on the registry lock, on
  the registry map, on its collaborators) together with the engine afterwards. Code that
  http.go calls but does not contain (the standard library, gin, shellquote, and the
  methods of the engine and of a pipeline that live in other files) is a parameter of the
  handlers, so every theorem holds for any behaviour of these collaborators.
\<close>

subsection \<open>Data\<close>

text \<open>
  Modelled from the spec: the status constants are declared outside http.go, which names
  only \<open>StatusRunning\<close>; the spec lists Pending, Running, Failed, Killed, Finished.
\<close>

datatype PipelineStatus =
  StatusPending | StatusRunning | StatusFailed | StatusKilled | StatusFinished

text \<open>
  \<open>RunningPipeline\<close>: the struct is declared outside http.go; the handlers read its
  fields \<open>Id\<close> and \<open>Status\<close>. (\<open>Id\<close> is written \<open>Id_pipe\<close>: HOL has a constant \<open>Id\<close>.)
\<close>

record RunningPipeline =
  Id_pipe :: int
  Status :: PipelineStatus

text \<open>
  \<open>engine.pipelines\<close> is a Go \<open>map[int]*RunningPipeline\<close>. It is an association list
  here: \<open>engine.pipelines[id]\<close> is \<open>map_of\<close>, and the order of the list is the order in
  which \<open>range\<close> happens to visit the entries, which Go leaves unspecified.
\<close>

record Engine =
  pipelines :: "(int \<times> RunningPipeline) list"

text \<open>
  The error of \<open>strconv.Atoi\<close> is a \<open>*strconv.NumError\<close>: the function that failed
  (\<open>Func\<close>), the string it was given (\<open>Num\<close>) and the cause (\<open>Err\<close>), which is
  \<open>strconv.ErrSyntax\<close> or \<open>strconv.ErrRange\<close>.
\<close>

datatype NumErrorCause = ErrSyntax | ErrRange

datatype NumError = NumError string string NumErrorCause

text \<open>
  The errors of the other calls of http.go (reading and closing the body, parsing the
  duration, splitting the parameters, creating and killing a pipeline): \<open>Err m\<close> is an
  error whose \<open>Error()\<close> text is \<open>m\<close>.
\<close>

datatype error = Err string

fun Error :: "error \<Rightarrow> string" where
  "Error (Err m) = m"

text \<open>The arguments that \<open>replyString\<close> passes on to \<open>fmt.Sprintf\<close>.\<close>

datatype Arg = AInt int | AStr string | AErr error | ANumErr NumError

text \<open>What \<open>c.JSON\<close> is given to serialise.\<close>

datatype Payload = Ids "int list" | Pipe "RunningPipeline option"

text \<open>
  The operations of a handler, in the order it performs them:
  \<^item> \<open>Lock\<close>, \<open>Unlock\<close>: \<open>engine.pipelinesLock.Lock()\<close> and \<open>Unlock()\<close>;
  \<^item> \<open>MapLookup id\<close>: the read \<open>engine.pipelines[id]\<close>;
  \<^item> \<open>Reply code format args\<close>: \<open>engine.replyString(c, code, format, args...)\<close>;
  \<^item> \<open>JSON code payload\<close>: \<open>c.JSON(code, payload)\<close>;
  \<^item> \<open>Write code bytes\<close>: \<open>c.Status(code)\<close> followed by \<open>c.Writer.Write(bytes)\<close>;
  \<^item> \<open>CallNewPipeline script delay params\<close>: \<open>engine.NewPipeline(script, delay, params)\<close>;
  \<^item> \<open>CallGetOutput pipe\<close>, \<open>CallKill pipe\<close>: \<open>pipe.GetOutput()\<close>, \<open>pipe.Kill()\<close>;
  \<^item> \<open>NilDeref\<close>: a field read through a nil pointer, which panics;
  \<^item> \<open>BodyClose\<close>, \<open>LogWarn err\<close>: the deferred \<open>c.Request.Body.Close()\<close> and its warning.
\<close>

datatype Event =
    Lock
  | Unlock
  | MapLookup int
  | Reply nat string "Arg list"
  | JSON nat Payload
  | Write nat string
  | CallNewPipeline string int "string list"
  | CallGetOutput RunningPipeline
  | CallKill RunningPipeline
  | NilDeref
  | BodyClose
  | LogWarn error

text \<open>
  The request as the handlers read it: \<open>ReadAll\<close> is the result of
  \<open>ioutil.ReadAll(c.Request.Body)\<close>, \<open>CloseBody\<close> that of \<open>c.Request.Body.Close()\<close>;
  \<open>QueryParams\<close> are the pairs of the query string and \<open>PathParams\<close> those of the route.
\<close>

record Request =
  ReadAll :: "string \<times> error option"
  CloseBody :: "error option"
  QueryParams :: "(string \<times> string) list"
  PathParams :: "(string \<times> string) list"

text \<open>\<open>c.Query(key)\<close> and \<open>c.Param(key)\<close>: the first value of the key, or the empty string.\<close>

definition Query :: "Request \<Rightarrow> string \<Rightarrow> string" where
  "Query c key = (case map_of (QueryParams c) key of Some v \<Rightarrow> v | None \<Rightarrow> [])"

definition Param :: "Request \<Rightarrow> string \<Rightarrow> string" where
  "Param c key = (case map_of (PathParams c) key of Some v \<Rightarrow> v | None \<Rightarrow> [])"

text \<open>
  The collaborators of http.go that are not part of it. A \<open>time.Duration\<close> is an integer
  number of nanoseconds. \<open>NewPipeline\<close> and \<open>Kill\<close> may change the engine; \<open>Kill\<close> also
  returns the pipeline as it is after the call, which the handler serialises.
\<close>

record Collaborators =
  ParseDuration :: "string \<Rightarrow> int \<times> error option"
  Split :: "string \<Rightarrow> string list \<times> error option"
  NewPipeline :: "string \<Rightarrow> int \<Rightarrow> string list \<Rightarrow> Engine
                    \<Rightarrow> (RunningPipeline option \<times> error option) \<times> Engine"
  GetOutput :: "RunningPipeline \<Rightarrow> Engine \<Rightarrow> string \<times> error option"
  Kill :: "RunningPipeline \<Rightarrow> Engine \<Rightarrow> (error option \<times> RunningPipeline) \<times> Engine"

subsection \<open>Constants\<close>

definition Millisecond :: int where
  "Millisecond = 1000000"

definition DefaultNewPipelineDelay :: int where
  "DefaultNewPipelineDelay = 200 * Millisecond"

definition NewPipelineDelayQuery :: string where
  "NewPipelineDelayQuery = ''delay''"

definition NewPipelineParametersQuery :: string where
  "NewPipelineParametersQuery = ''params''"

definition StatusOK :: nat where "StatusOK = 200"
definition StatusCreated :: nat where "StatusCreated = 201"
definition StatusBadRequest :: nat where "StatusBadRequest = 400"
definition StatusNotFound :: nat where "StatusNotFound = 404"
definition StatusPreconditionFailed :: nat where "StatusPreconditionFailed = 412"
definition StatusInternalServerError :: nat where "StatusInternalServerError = 500"

subsection \<open>Listing handlers\<close>

text \<open>
  The loop of \<open>serveFilteredPipelineIds\<close>: \<open>range\<close> over the map, appending \<open>pipe.Id\<close>
  of every accepted pipeline to \<open>response\<close>.
\<close>

fun rangePipelines ::
  "(RunningPipeline \<Rightarrow> bool) \<Rightarrow> (int \<times> RunningPipeline) list \<Rightarrow> int list \<Rightarrow> int list" where
  "rangePipelines accept [] response = response"
| "rangePipelines accept ((key, pipe) # rest) response =
     rangePipelines accept rest (if accept pipe then response @ [Id_pipe pipe] else response)"

text \<open>\<open>sort.Ints\<close> sorts a slice of integers in increasing order.\<close>

definition sort_Ints :: "int list \<Rightarrow> int list" where
  "sort_Ints xs = sort xs"

definition serveFilteredPipelineIds ::
  "Engine \<Rightarrow> (RunningPipeline \<Rightarrow> bool) \<Rightarrow> Event list \<times> Engine" where
  "serveFilteredPipelineIds engine accept =
     (let response = rangePipelines accept (pipelines engine) []
      in ([Lock, Unlock, JSON StatusOK (Ids (sort_Ints response))], engine))"

definition servePipelines :: "Engine \<Rightarrow> Event list \<times> Engine" where
  "servePipelines engine = serveFilteredPipelineIds engine (\<lambda>pipe. True)"

definition serveRunningPipelines :: "Engine \<Rightarrow> Event list \<times> Engine" where
  "serveRunningPipelines engine =
     serveFilteredPipelineIds engine (\<lambda>pipe. Status pipe = StatusRunning)"

text \<open>The identities that a handler sent as a JSON list, one list per such reply.\<close>

fun sentIds :: "Event list \<Rightarrow> int list list" where
  "sentIds [] = []"
| "sentIds (JSON code (Ids xs) # es) = xs # sentIds es"
| "sentIds (e # es) = sentIds es"

text \<open>The status codes of the replies of a handler, in order.\<close>

fun codes :: "Event list \<Rightarrow> nat list" where
  "codes [] = []"
| "codes (Reply code format args # es) = code # codes es"
| "codes (JSON code payload # es) = code # codes es"
| "codes (Write code bytes # es) = code # codes es"
| "codes (e # es) = codes es"

subsection \<open>Parsing the identity\<close>

text \<open>
  \<open>strconv.Atoi\<close> belongs to the Go standard library. It is \<open>strconv.ParseInt(s, 10, 0)\<close>
  converted to \<open>int\<close>, with \<open>Func\<close> of the error set to \<open>Atoi\<close> (for strings shorter than
  19 bytes it takes a shortcut with the same results); \<open>int\<close> has 64 bits.

  \<open>ParseUint\<close> in base 10 reads the bytes from left to right into an unsigned 64-bit
  number. A byte that is not a decimal digit is a syntax error, with value 0. A digit that
  would take the number beyond \<open>maxUint64\<close> is a range error, with value \<open>maxUint64\<close>,
  and ends the loop: what follows that digit is not read.
\<close>

definition isDigit :: "char \<Rightarrow> bool" where
  "isDigit ch = (48 \<le> (of_char ch :: nat) \<and> (of_char ch :: nat) \<le> 57)"

definition maxUint64 :: nat where
  "maxUint64 = 18446744073709551615"

fun ParseUint_loop :: "string \<Rightarrow> nat \<Rightarrow> nat \<times> NumErrorCause option" where
  "ParseUint_loop [] n = (n, None)"
| "ParseUint_loop (ch # s) n =
     (if isDigit ch then
        (if n \<ge> maxUint64 div 10 + 1 then (maxUint64, Some ErrRange)
         else
           (let n1 = n * 10 + (of_char ch - 48)
            in if n1 > maxUint64 then (maxUint64, Some ErrRange)
               else ParseUint_loop s n1))
      else (0, Some ErrSyntax))"

definition ParseUint :: "string \<Rightarrow> nat \<times> NumErrorCause option" where
  "ParseUint s = (if s = [] then (0, Some ErrSyntax) else ParseUint_loop s 0)"

text \<open>
  \<open>ParseInt\<close> picks off one leading sign, converts the rest with \<open>ParseUint\<close> and checks
  the range of a signed 64-bit number: on a syntax error the value is 0, out of range it
  is the bound of the sign.
\<close>

definition ParseInt :: "string \<Rightarrow> int \<times> NumErrorCause option" where
  "ParseInt s =
     (case s of
        [] \<Rightarrow> (0, Some ErrSyntax)
      | ch # rest \<Rightarrow>
          (let neg = (ch = CHR ''-'');
               digits = (if ch = CHR ''+'' \<or> ch = CHR ''-'' then rest else s);
               (un, err) = ParseUint digits
           in if err = Some ErrSyntax then (0, Some ErrSyntax)
              else if \<not> neg \<and> int un \<ge> 2 ^ 63 then (2 ^ 63 - 1, Some ErrRange)
              else if neg \<and> int un > 2 ^ 63 then (- (2 ^ 63), Some ErrRange)
              else (if neg then - int un else int un, None)))"

definition Atoi :: "string \<Rightarrow> int \<times> NumError option" where
  "Atoi s =
     (let (i64, err) = ParseInt s
      in (i64, (case err of None \<Rightarrow> None | Some cause \<Rightarrow> Some (NumError ''Atoi'' s cause))))"

subsection \<open>Handlers of one pipeline\<close>

definition pipelineResponse :: "RunningPipeline option \<Rightarrow> Payload" where
  "pipelineResponse pipe = Pipe pipe"

definition getPipeline :: "Engine \<Rightarrow> Request \<Rightarrow> Event list \<times> RunningPipeline option" where
  "getPipeline engine c =
     (let idStr = Param c ''id'';
          (id, err) = Atoi idStr;
          parseReply =
            (case err of
               Some e \<Rightarrow> [Reply StatusBadRequest ''Failed to parse parameter '%v' to int: %v''
                            [AStr idStr, ANumErr e]]
             | None \<Rightarrow> []);
          pipeline = map_of (pipelines engine) id;
          existsReply =
            (case pipeline of
               None \<Rightarrow> [Reply StatusNotFound (''Pipeline does not exist: '' @ idStr) []]
             | Some p \<Rightarrow> [])
      in (parseReply @ [Lock, MapLookup id, Unlock] @ existsReply, pipeline))"

definition serveGetPipeline :: "Engine \<Rightarrow> Request \<Rightarrow> Event list \<times> Engine" where
  "serveGetPipeline engine c =
     (let (evs, pipe) = getPipeline engine c
      in case pipe of
           Some p \<Rightarrow> (evs @ [JSON StatusOK (pipelineResponse (Some p))], engine)
         | None \<Rightarrow> (evs, engine))"

definition serveGetPipelineOutput ::
  "Collaborators \<Rightarrow> Engine \<Rightarrow> Request \<Rightarrow> Event list \<times> Engine" where
  "serveGetPipelineOutput X engine c =
     (let (evs, pipe) = getPipeline engine c
      in case pipe of
           Some p \<Rightarrow>
             (let (out, err) = GetOutput X p engine
              in case err of
                   None \<Rightarrow> (evs @ [CallGetOutput p, Write StatusOK out], engine)
                 | Some e \<Rightarrow>
                     (evs @ [CallGetOutput p,
                             Reply StatusInternalServerError
                               ''Error obtaining output of pipeline %v'' [AInt (Id_pipe p)]],
                      engine))
         | None \<Rightarrow> (evs, engine))"

definition serveKillPipeline ::
  "Collaborators \<Rightarrow> Engine \<Rightarrow> Request \<Rightarrow> Event list \<times> Engine" where
  "serveKillPipeline X engine c =
     (let (evs, pipe) = getPipeline engine c
      in case pipe of
           Some p \<Rightarrow>
             (let ((err, p'), engine') = Kill X p engine
              in case err of
                   Some e \<Rightarrow>
                     (evs @ [CallKill p,
                             Reply StatusInternalServerError ''Error killing pipeline %v: %v''
                               [AInt (Id_pipe p'), AErr e]],
                      engine')
                 | None \<Rightarrow> (evs @ [CallKill p, JSON StatusOK (Pipe (Some p'))], engine'))
         | None \<Rightarrow> (evs, engine))"

subsection \<open>Creating a pipeline\<close>

text \<open>
  \<open>serveNewPipeline\<close>. The deferred closing of the body runs when the handler leaves,
  also after a panic, so its operations end every trace. In the error branch the handler
  evaluates \<open>pipeline.Id\<close> before it calls \<open>replyString\<close>: with a nil \<open>pipeline\<close> it
  panics without a reply.
\<close>

definition serveNewPipeline ::
  "Collaborators \<Rightarrow> Engine \<Rightarrow> Request \<Rightarrow> Event list \<times> Engine" where
  "serveNewPipeline X engine c =
     (let (script, readErr) = ReadAll c;
          (evs, engine') =
            (case readErr of
               Some e \<Rightarrow>
                 ([Reply StatusInternalServerError
                     (''Failed to read request body: '' @ Error e) []], engine)
             | None \<Rightarrow>
                 (if length script = 0 then
                    ([Reply StatusBadRequest
                        ''Provide the Bitflow script for the new pipeline as the POST request body.''
                        []], engine)
                  else
                    (let delayStr = Query c NewPipelineDelayQuery;
                         (parsedDelay, delayErr) =
                           (if delayStr \<noteq> [] then ParseDuration X delayStr
                            else (DefaultNewPipelineDelay, None))
                     in (case delayErr of
                           Some e \<Rightarrow>
                             ([Reply StatusBadRequest
                                 ''The parameter '%v' could not be parsed to a duration: %v. Example format: 500ms''
                                 [AStr NewPipelineDelayQuery, AErr e]], engine)
                         | None \<Rightarrow>
                             (let delay = parsedDelay;
                                  extraParamString = Query c NewPipelineParametersQuery;
                                  (extraParamsSplit, splitErr) =
                                    (if extraParamString \<noteq> [] then Split X extraParamString
                                     else ([], None))
                              in (case splitErr of
                                    Some e \<Rightarrow>
                                      ([Reply StatusBadRequest
                                          ''The parameter '%v' could not be split into shell parameters: %v. The quote syntax must follow /bin/sh.''
                                          [AStr NewPipelineParametersQuery, AErr e]], engine)
                                  | None \<Rightarrow>
                                      (let extraParams = extraParamsSplit;
                                           ((pipeline, err), engine'') =
                                             NewPipeline X script delay extraParams engine
                                       in (case err of
                                             Some e \<Rightarrow>
                                               (case pipeline of
                                                  None \<Rightarrow>
                                                    ([CallNewPipeline script delay extraParams,
                                                      NilDeref], engine'')
                                                | Some p \<Rightarrow>
                                                    ([CallNewPipeline script delay extraParams,
                                                      Reply StatusPreconditionFailed
                                                        ''Error starting pipeline %v: %v''
                                                        [AInt (Id_pipe p), AStr (Error e)]],
                                                     engine''))
                                           | None \<Rightarrow>
                                               ([CallNewPipeline script delay extraParams,
                                                 JSON StatusCreated (pipelineResponse pipeline)],
                                                engine'')))))))))
      in (evs @ [BodyClose] @ (case CloseBody c of Some e \<Rightarrow> [LogWarn e] | None \<Rightarrow> []),
          engine'))"

text \<open>The calls of \<open>engine.NewPipeline\<close> in a trace, with their arguments.\<close>

fun creations :: "Event list \<Rightarrow> (string \<times> int \<times> string list) list" where
  "creations [] = []"
| "creations (CallNewPipeline script delay params # es) = (script, delay, params) # creations es"
| "creations (e # es) = creations es"

text \<open>The reads of the registry map in a trace, with the key.\<close>

fun lookups :: "Event list \<Rightarrow> int list" where
  "lookups [] = []"
| "lookups (MapLookup key # es) = key # lookups es"
| "lookups (e # es) = lookups es"

subsection \<open>Example collaborators, requests and engine\<close>

text \<open>
  Concrete collaborators on which the handlers can be evaluated. \<open>exampleParseDuration\<close>
  has the values of \<open>time.ParseDuration\<close> at \<open>500ms\<close> and \<open>-1s\<close> (a duration string is a
  possibly signed sequence of decimal numbers with unit suffixes) and fails elsewhere; it
  is applied below to these two strings and to \<open>soon\<close>, which \<open>time.ParseDuration\<close>
  rejects. \<open>exampleSplit\<close> has the value of \<open>shellquote.Split\<close> at \<open>-v\<close>.
\<close>

definition exampleParseDuration :: "string \<Rightarrow> int \<times> error option" where
  "exampleParseDuration s =
     (if s = ''500ms'' then (500 * Millisecond, None)
      else if s = ''-1s'' then (- 1000 * Millisecond, None)
      else (0, Some (Err ''time: invalid duration'')))"

definition exampleSplit :: "string \<Rightarrow> string list \<times> error option" where
  "exampleSplit s =
     (if s = ''-v'' then ([''-v''], None)
      else ([], Some (Err ''Unterminated single-quoted string'')))"

text \<open>
  Three behaviours of \<open>engine.NewPipeline\<close>: it registers a pending pipeline under the
  next free identity; it fails and returns the pipeline it built; it fails and returns nil.
\<close>

definition exampleNewPipeline ::
  "string \<Rightarrow> int \<Rightarrow> string list \<Rightarrow> Engine
     \<Rightarrow> (RunningPipeline option \<times> error option) \<times> Engine" where
  "exampleNewPipeline script delay params engine =
     (let p = \<lparr>Id_pipe = int (length (pipelines engine)), Status = StatusPending\<rparr>
      in ((Some p, None), engine\<lparr>pipelines := pipelines engine @ [(Id_pipe p, p)]\<rparr>))"

definition failingNewPipeline ::
  "string \<Rightarrow> int \<Rightarrow> string list \<Rightarrow> Engine
     \<Rightarrow> (RunningPipeline option \<times> error option) \<times> Engine" where
  "failingNewPipeline script delay params engine =
     ((Some \<lparr>Id_pipe = int (length (pipelines engine)), Status = StatusFailed\<rparr>,
       Some (Err ''executable not found'')), engine)"

definition nilNewPipeline ::
  "string \<Rightarrow> int \<Rightarrow> string list \<Rightarrow> Engine
     \<Rightarrow> (RunningPipeline option \<times> error option) \<times> Engine" where
  "nilNewPipeline script delay params engine =
     ((None, Some (Err ''executable not found'')), engine)"

definition exampleCollaborators ::
  "(string \<Rightarrow> int \<Rightarrow> string list \<Rightarrow> Engine
      \<Rightarrow> (RunningPipeline option \<times> error option) \<times> Engine) \<Rightarrow> Collaborators" where
  "exampleCollaborators newPipeline =
     \<lparr>ParseDuration = exampleParseDuration, Split = exampleSplit, NewPipeline = newPipeline,
      GetOutput = (\<lambda>pipe engine. ([], None)),
      Kill = (\<lambda>pipe engine. ((None, pipe\<lparr>Status := StatusKilled\<rparr>), engine))\<rparr>"

definition postRequest :: "string \<Rightarrow> (string \<times> string) list \<Rightarrow> Request" where
  "postRequest body query =
     \<lparr>ReadAll = (body, None), CloseBody = None, QueryParams = query, PathParams = []\<rparr>"

definition idRequest :: "string \<Rightarrow> Request" where
  "idRequest idStr =
     \<lparr>ReadAll = ([], None), CloseBody = None, QueryParams = [],
      PathParams = [(''id'', idStr)]\<rparr>"

definition emptyEngine :: Engine where
  "emptyEngine = \<lparr>pipelines = []\<rparr>"

definition exampleEngine :: Engine where
  "exampleEngine =
     \<lparr>pipelines = [(3, \<lparr>Id_pipe = 3, Status = StatusRunning\<rparr>),
                  (1, \<lparr>Id_pipe = 1, Status = StatusFinished\<rparr>),
                  (2, \<lparr>Id_pipe = 2, Status = StatusRunning\<rparr>)]\<rparr>"

section \<open>Properties\<close>

subsection \<open>Auxiliary facts\<close>

lemma rangePipelines_eq:
  "rangePipelines accept ps response =
     response @ map Id_pipe (filter accept (map snd ps))"
  by (induction ps arbitrary: response) auto

lemma sort_Ints_props:
  "sorted (sort_Ints xs) \<and> set (sort_Ints xs) = set xs \<and>
   length (sort_Ints xs) = length xs \<and> distinct (sort_Ints xs) = distinct xs"
  by (simp add: sort_Ints_def)

lemma creations_append: "creations (xs @ ys) = creations xs @ creations ys"
  by (induction xs rule: creations.induct) simp_all

lemma codes_append: "codes (xs @ ys) = codes xs @ codes ys"
  by (induction xs rule: codes.induct) simp_all

lemma creations_close [simp]:
  "creations (case ce of None \<Rightarrow> [] | Some e \<Rightarrow> [LogWarn e]) = []"
  by (cases ce) simp_all

lemma codes_close [simp]:
  "codes (case ce of None \<Rightarrow> [] | Some e \<Rightarrow> [LogWarn e]) = []"
  by (cases ce) simp_all

lemmas status_defs =
  StatusOK_def StatusCreated_def StatusBadRequest_def StatusNotFound_def
  StatusPreconditionFailed_def StatusInternalServerError_def

lemmas query_defs =
  Query_def Param_def NewPipelineDelayQuery_def NewPipelineParametersQuery_def
  DefaultNewPipelineDelay_def Millisecond_def

lemmas example_defs =
  exampleParseDuration_def exampleSplit_def exampleNewPipeline_def failingNewPipeline_def
  nilNewPipeline_def exampleCollaborators_def postRequest_def idRequest_def
  emptyEngine_def exampleEngine_def

lemmas Atoi_defs =
  Atoi_def ParseInt_def ParseUint_def isDigit_def maxUint64_def Let_def

lemma Atoi_abc: "Atoi ''abc'' = (0, Some (NumError ''Atoi'' ''abc'' ErrSyntax))"
  by (simp add: Atoi_defs)

lemma Atoi_999999: "Atoi ''999999'' = (999999, None)"
  by (simp add: Atoi_defs)

text \<open>
  The handler of POST /pipeline on a request that passes every check: it calls
  \<open>engine.NewPipeline\<close> once and replies according to the result. Conversely, a call
  of \<open>engine.NewPipeline\<close> in the trace means that the request passed every check.
\<close>

lemma serveNewPipeline_valid:
  assumes "ReadAll c = (script, None)" and "script \<noteq> []"
    and "Query c ''delay'' = [] \<and> delay = 200000000 \<or>
         Query c ''delay'' \<noteq> [] \<and> ParseDuration X (Query c ''delay'') = (delay, None)"
    and "Query c ''params'' = [] \<and> params = [] \<or>
         Query c ''params'' \<noteq> [] \<and> Split X (Query c ''params'') = (params, None)"
    and "NewPipeline X script delay params engine = ((pipeline, err), engine')"
  shows "serveNewPipeline X engine c =
           (CallNewPipeline script delay params #
            (case err of
               Some e \<Rightarrow>
                 (case pipeline of
                    None \<Rightarrow> [NilDeref]
                  | Some p \<Rightarrow> [Reply 412 ''Error starting pipeline %v: %v''
                                 [AInt (Id_pipe p), AStr (Error e)]])
             | None \<Rightarrow> [JSON 201 (Pipe pipeline)])
            @ [BodyClose] @ (case CloseBody c of Some e \<Rightarrow> [LogWarn e] | None \<Rightarrow> []),
            engine')"
proof -
  have d: "(if Query c NewPipelineDelayQuery \<noteq> []
            then ParseDuration X (Query c NewPipelineDelayQuery)
            else (DefaultNewPipelineDelay, None)) = (delay, None)"
    using assms(3)
    by (auto simp: NewPipelineDelayQuery_def DefaultNewPipelineDelay_def Millisecond_def)
  have p: "(if Query c NewPipelineParametersQuery \<noteq> []
            then Split X (Query c NewPipelineParametersQuery)
            else ([], None)) = (params, None)"
    using assms(4) by (auto simp: NewPipelineParametersQuery_def)
  show ?thesis
    unfolding serveNewPipeline_def Let_def assms(1) d p
    using assms(2) assms(5)
    by (simp add: pipelineResponse_def StatusCreated_def StatusPreconditionFailed_def
        split: option.splits)
qed


text \<open>The handler of POST /pipeline on the example requests.\<close>

lemma post_default_delay:
  "serveNewPipeline (exampleCollaborators exampleNewPipeline) emptyEngine
     (postRequest ''x'' [(''params'', ''-v'')]) =
   ([CallNewPipeline ''x'' 200000000 [''-v''],
     JSON 201 (Pipe (Some \<lparr>Id_pipe = 0, Status = StatusPending\<rparr>)), BodyClose],
    \<lparr>pipelines = [(0, \<lparr>Id_pipe = 0, Status = StatusPending\<rparr>)]\<rparr>)"
  by (simp add: serveNewPipeline_def Let_def pipelineResponse_def status_defs query_defs
      example_defs)

lemma post_negative_delay:
  "serveNewPipeline (exampleCollaborators exampleNewPipeline) emptyEngine
     (postRequest ''x'' [(''delay'', ''-1s'')]) =
   ([CallNewPipeline ''x'' (- 1000000000) [],
     JSON 201 (Pipe (Some \<lparr>Id_pipe = 0, Status = StatusPending\<rparr>)), BodyClose],
    \<lparr>pipelines = [(0, \<lparr>Id_pipe = 0, Status = StatusPending\<rparr>)]\<rparr>)"
  by (simp add: serveNewPipeline_def Let_def pipelineResponse_def status_defs query_defs
      example_defs)

lemma post_bad_delay:
  "serveNewPipeline (exampleCollaborators exampleNewPipeline) emptyEngine
     (postRequest ''x'' [(''delay'', ''soon'')]) =
   ([Reply 400
       ''The parameter '%v' could not be parsed to a duration: %v. Example format: 500ms''
       [AStr ''delay'', AErr (Err ''time: invalid duration'')], BodyClose],
    emptyEngine)"
  by (simp add: serveNewPipeline_def Let_def status_defs query_defs example_defs)

lemma post_failing:
  "serveNewPipeline (exampleCollaborators failingNewPipeline) emptyEngine
     (postRequest ''x'' []) =
   ([CallNewPipeline ''x'' 200000000 [],
     Reply 412 ''Error starting pipeline %v: %v'' [AInt 0, AStr ''executable not found''],
     BodyClose],
    emptyEngine)"
  by (simp add: serveNewPipeline_def Let_def status_defs query_defs example_defs)

lemma post_nil:
  "serveNewPipeline (exampleCollaborators nilNewPipeline) emptyEngine
     (postRequest ''x'' []) =
   ([CallNewPipeline ''x'' 200000000 [], NilDeref, BodyClose], emptyEngine)"
  by (simp add: serveNewPipeline_def Let_def status_defs query_defs example_defs)

subsection \<open>Identity parsing and lookup\<close>

text \<open>
  C1. Claim: when the \<open>id\<close> path parameter of GET /pipeline/:id, GET /pipeline/:id/out or
  DELETE /pipeline/:id does not parse as an integer, the handler replies 400 and returns
  before any registry lookup. The code replies 400 but does not return: \<open>getPipeline\<close>
  goes on to lock the registry and to look up the value that \<open>Atoi\<close> returned with its
  error, which is 0 for \<open>abc\<close>. On an empty registry each of the three handlers then
  sends a second reply, 404.
\<close>

theorem getPipeline_parse_error_reaches_lookup:
  "serveGetPipeline emptyEngine (idRequest ''abc'') =
     ([Reply 400 ''Failed to parse parameter '%v' to int: %v'' [AStr ''abc'', ANumErr (NumError ''Atoi'' ''abc'' ErrSyntax)],
       Lock, MapLookup 0, Unlock,
       Reply 404 ''Pipeline does not exist: abc'' []], emptyEngine)
   \<and> fst (serveGetPipelineOutput X emptyEngine (idRequest ''abc'')) =
       fst (serveGetPipeline emptyEngine (idRequest ''abc''))
   \<and> fst (serveKillPipeline X emptyEngine (idRequest ''abc'')) =
       fst (serveGetPipeline emptyEngine (idRequest ''abc''))"
  by (simp add: serveGetPipeline_def serveGetPipelineOutput_def serveKillPipeline_def
      getPipeline_def Let_def Param_def idRequest_def emptyEngine_def Atoi_abc
      StatusBadRequest_def StatusNotFound_def)

text \<open>
  C7. For GET /pipeline/:id with an \<open>id\<close> that parses as an integer and is not a key of
  the registry, the handler looks the key up once, replies 404 and nothing else, and
  leaves the engine, with its registry and every pipeline stored there, as it was.
\<close>

theorem serveGetPipeline_unknown_id:
  assumes "Atoi (Param c ''id'') = (ident, None)"
    and "map_of (pipelines engine) ident = None"
  shows "serveGetPipeline engine c =
           ([Lock, MapLookup ident, Unlock,
             Reply 404 (''Pipeline does not exist: '' @ Param c ''id'') []], engine)"
  using assms by (simp add: serveGetPipeline_def getPipeline_def StatusNotFound_def)

theorem serveGetPipeline_unknown_id_witness:
  "Atoi (Param (idRequest ''999999'') ''id'') = (999999, None) \<and>
   map_of (pipelines exampleEngine) 999999 = None \<and>
   serveGetPipeline exampleEngine (idRequest ''999999'') =
     ([Lock, MapLookup 999999, Unlock, Reply 404 ''Pipeline does not exist: 999999'' []],
      exampleEngine)"
proof -
  have p: "Param (idRequest ''999999'') ''id'' = ''999999''"
    by (simp add: Param_def idRequest_def)
  have a: "Atoi (Param (idRequest ''999999'') ''id'') = (999999, None)"
    by (simp add: p Atoi_999999)
  have m: "map_of (pipelines exampleEngine) 999999 = None"
    by (simp add: exampleEngine_def)
  show ?thesis using serveGetPipeline_unknown_id [OF a m] a m by (simp add: p)
qed

subsection \<open>Listings\<close>

text \<open>
  C2. GET /pipelines replies 200 with the identities of all registered pipelines, sorted
  in ascending order, each exactly once. The registry is any list of entries, in any
  order, whose pipelines have pairwise different identities, as the data model requires
  of a registry (an identity is unique).
\<close>

theorem servePipelines_sorted_distinct:
  assumes "distinct (map (\<lambda>(key, pipe). Id_pipe pipe) (pipelines engine))"
  shows "\<exists>ids. servePipelines engine = ([Lock, Unlock, JSON 200 (Ids ids)], engine)
           \<and> sorted ids \<and> distinct ids
           \<and> set ids = Id_pipe ` snd ` set (pipelines engine)"
proof -
  let ?all = "map Id_pipe (map snd (pipelines engine))"
  have eq: "map (\<lambda>(key, pipe). Id_pipe pipe) (pipelines engine) = ?all"
    by (simp add: case_prod_unfold)
  have "servePipelines engine = ([Lock, Unlock, JSON 200 (Ids (sort_Ints ?all))], engine)"
    by (simp add: servePipelines_def serveFilteredPipelineIds_def rangePipelines_eq
        StatusOK_def)
  moreover have "sorted (sort_Ints ?all)"
    using sort_Ints_props by blast
  moreover have "distinct (sort_Ints ?all)"
    using assms eq sort_Ints_props by metis
  moreover have "set (sort_Ints ?all) = Id_pipe ` snd ` set (pipelines engine)"
    using sort_Ints_props [of ?all] by (simp add: image_image)
  ultimately show ?thesis by blast
qed

theorem servePipelines_sorted_distinct_witness:
  "distinct (map (\<lambda>(key, pipe). Id_pipe pipe) (pipelines exampleEngine)) \<and>
   (\<exists>ids. servePipelines exampleEngine = ([Lock, Unlock, JSON 200 (Ids ids)], exampleEngine)
           \<and> sorted ids \<and> distinct ids
           \<and> set ids = Id_pipe ` snd ` set (pipelines exampleEngine))"
proof -
  have d: "distinct (map (\<lambda>(key, pipe). Id_pipe pipe) (pipelines exampleEngine))"
    by (simp add: exampleEngine_def)
  show ?thesis using servePipelines_sorted_distinct [OF d] d by blast
qed

text \<open>
  C3. GET /running replies 200 with exactly the identities of the pipelines whose status
  is Running, sorted in ascending order: the identities sent are those of the Running
  pipelines of the registry, and there are as many of them as Running entries.
\<close>

theorem serveRunningPipelines_exact:
  "\<exists>ids. serveRunningPipelines engine = ([Lock, Unlock, JSON 200 (Ids ids)], engine)
         \<and> sorted ids
         \<and> set ids =
             Id_pipe ` {pipe \<in> snd ` set (pipelines engine). Status pipe = StatusRunning}
         \<and> length ids =
             length (filter (\<lambda>(key, pipe). Status pipe = StatusRunning) (pipelines engine))"
proof -
  let ?run = "\<lambda>pipe. Status pipe = StatusRunning"
  let ?sel = "map Id_pipe (filter ?run (map snd (pipelines engine)))"
  have "serveRunningPipelines engine =
          ([Lock, Unlock, JSON 200 (Ids (sort_Ints ?sel))], engine)"
    by (simp add: serveRunningPipelines_def serveFilteredPipelineIds_def rangePipelines_eq
        StatusOK_def)
  moreover have "sorted (sort_Ints ?sel)"
    using sort_Ints_props by blast
  moreover have "set (sort_Ints ?sel) =
      Id_pipe ` {pipe \<in> snd ` set (pipelines engine). Status pipe = StatusRunning}"
    using sort_Ints_props [of ?sel] by auto
  moreover have "length (sort_Ints ?sel) =
      length (filter (\<lambda>(key, pipe). Status pipe = StatusRunning) (pipelines engine))"
  proof -
    have "filter ?run (map snd (pipelines engine)) =
        map snd (filter (\<lambda>(key, pipe). Status pipe = StatusRunning) (pipelines engine))"
      by (simp add: filter_map comp_def case_prod_unfold)
    then show ?thesis
      using sort_Ints_props [of ?sel] by simp
  qed
  ultimately show ?thesis by blast
qed

subsection \<open>Creating a pipeline\<close>

text \<open>
  C4. A POST /pipeline request whose body reads as empty is answered with 400 and nothing
  else; \<open>engine.NewPipeline\<close> is not called, so no identity is allocated and no pipeline
  is created, and the engine with its registry is unchanged.
\<close>

theorem serveNewPipeline_empty_body:
  assumes "ReadAll c = ([], None)"
  shows "codes (fst (serveNewPipeline X engine c)) = [400]
       \<and> creations (fst (serveNewPipeline X engine c)) = []
       \<and> snd (serveNewPipeline X engine c) = engine"
  using assms
  by (simp add: serveNewPipeline_def StatusBadRequest_def split: option.splits)

theorem serveNewPipeline_empty_body_witness:
  "ReadAll (postRequest [] [(''delay'', ''500ms'')]) = ([], None) \<and>
   codes (fst (serveNewPipeline (exampleCollaborators exampleNewPipeline) exampleEngine
                 (postRequest [] [(''delay'', ''500ms'')]))) = [400] \<and>
   creations (fst (serveNewPipeline (exampleCollaborators exampleNewPipeline) exampleEngine
                 (postRequest [] [(''delay'', ''500ms'')]))) = [] \<and>
   snd (serveNewPipeline (exampleCollaborators exampleNewPipeline) exampleEngine
                 (postRequest [] [(''delay'', ''500ms'')])) = exampleEngine"
  using serveNewPipeline_empty_body
    [of "postRequest [] [(''delay'', ''500ms'')]" "exampleCollaborators exampleNewPipeline"
      exampleEngine]
  by (simp add: postRequest_def)

text \<open>
  C5. For a POST /pipeline request whose body has been read: if the \<open>delay\<close> query
  parameter is absent or empty, and the request is otherwise valid (non-empty body,
  \<open>params\<close> absent or split without error), the pipeline is created with a delay of
  exactly 200 milliseconds (200000000 ns): \<open>engine.NewPipeline\<close> is called once, with the
  script, that delay and the parameters, the engine afterwards is the one this call
  returns, and when the call returns no error the reply is 201 with the pipeline it
  returned. If \<open>delay\<close> is present and does not parse as a duration, the handler replies
  400, creates no pipeline and leaves the engine as it was.
\<close>

theorem serveNewPipeline_delay_default_or_rejected:
  assumes "ReadAll c = (script, None)"
  shows "(Query c ''delay'' = [] \<longrightarrow> script \<noteq> [] \<longrightarrow>
            (Query c ''params'' = [] \<and> params = [] \<or>
             Query c ''params'' \<noteq> [] \<and> Split X (Query c ''params'') = (params, None)) \<longrightarrow>
            creations (fst (serveNewPipeline X engine c)) = [(script, 200000000, params)]
          \<and> snd (serveNewPipeline X engine c) =
              snd (NewPipeline X script 200000000 params engine)
          \<and> (\<forall>pipeline.
                fst (NewPipeline X script 200000000 params engine) = (pipeline, None) \<longrightarrow>
                codes (fst (serveNewPipeline X engine c)) = [201]
              \<and> JSON 201 (Pipe pipeline) \<in> set (fst (serveNewPipeline X engine c))))
       \<and> (Query c ''delay'' \<noteq> [] \<longrightarrow> ParseDuration X (Query c ''delay'') = (d, Some e) \<longrightarrow>
            codes (fst (serveNewPipeline X engine c)) = [400]
          \<and> creations (fst (serveNewPipeline X engine c)) = []
          \<and> snd (serveNewPipeline X engine c) = engine)"
proof (intro conjI impI)
  assume q: "Query c ''delay'' = []" and s: "script \<noteq> []"
    and p: "Query c ''params'' = [] \<and> params = [] \<or>
            Query c ''params'' \<noteq> [] \<and> Split X (Query c ''params'') = (params, None)"
  obtain pipeline err engine' where
    n: "NewPipeline X script 200000000 params engine = ((pipeline, err), engine')"
    by (metis surj_pair)
  have dl: "Query c ''delay'' = [] \<and> (200000000::int) = 200000000 \<or>
            Query c ''delay'' \<noteq> [] \<and>
            ParseDuration X (Query c ''delay'') = (200000000, None)"
    using q by simp
  note v = serveNewPipeline_valid [OF assms s dl p n]
  show "creations (fst (serveNewPipeline X engine c)) = [(script, 200000000, params)]"
    by (simp add: v creations_append split: option.splits)
  show "snd (serveNewPipeline X engine c) =
      snd (NewPipeline X script 200000000 params engine)"
    by (simp add: v n)
  show "\<forall>pipeline.
          fst (NewPipeline X script 200000000 params engine) = (pipeline, None) \<longrightarrow>
          codes (fst (serveNewPipeline X engine c)) = [201]
        \<and> JSON 201 (Pipe pipeline) \<in> set (fst (serveNewPipeline X engine c))"
    by (simp add: v n codes_append)
next
  assume q: "Query c ''delay'' \<noteq> []"
    and pd: "ParseDuration X (Query c ''delay'') = (d, Some e)"
  have r: "serveNewPipeline X engine c =
     ((if script = [] then
         [Reply 400
            ''Provide the Bitflow script for the new pipeline as the POST request body.'' []]
       else
         [Reply 400
            ''The parameter '%v' could not be parsed to a duration: %v. Example format: 500ms''
            [AStr ''delay'', AErr e]])
      @ [BodyClose] @ (case CloseBody c of Some e \<Rightarrow> [LogWarn e] | None \<Rightarrow> []), engine)"
    using q pd
    by (simp add: serveNewPipeline_def Let_def assms NewPipelineDelayQuery_def
        StatusBadRequest_def)
  show "codes (fst (serveNewPipeline X engine c)) = [400]"
    by (simp add: r codes_append)
  show "creations (fst (serveNewPipeline X engine c)) = []"
    by (simp add: r creations_append)
  show "snd (serveNewPipeline X engine c) = engine"
    by (simp add: r)
qed

theorem serveNewPipeline_delay_default_or_rejected_witness:
  "ReadAll (postRequest ''x'' [(''params'', ''-v'')]) = (''x'', None)
   \<and> Query (postRequest ''x'' [(''params'', ''-v'')]) ''delay'' = []
   \<and> Split (exampleCollaborators exampleNewPipeline)
        (Query (postRequest ''x'' [(''params'', ''-v'')]) ''params'') = ([''-v''], None)
   \<and> creations (fst (serveNewPipeline (exampleCollaborators exampleNewPipeline) emptyEngine
        (postRequest ''x'' [(''params'', ''-v'')]))) = [(''x'', 200000000, [''-v''])]
   \<and> snd (serveNewPipeline (exampleCollaborators exampleNewPipeline) emptyEngine
        (postRequest ''x'' [(''params'', ''-v'')])) =
        \<lparr>pipelines = [(0, \<lparr>Id_pipe = 0, Status = StatusPending\<rparr>)]\<rparr>
   \<and> codes (fst (serveNewPipeline (exampleCollaborators exampleNewPipeline) emptyEngine
        (postRequest ''x'' [(''params'', ''-v'')]))) = [201]
   \<and> JSON 201 (Pipe (Some \<lparr>Id_pipe = 0, Status = StatusPending\<rparr>))
        \<in> set (fst (serveNewPipeline (exampleCollaborators exampleNewPipeline) emptyEngine
             (postRequest ''x'' [(''params'', ''-v'')])))
   \<and> ReadAll (postRequest ''x'' [(''delay'', ''soon'')]) = (''x'', None)
   \<and> ParseDuration (exampleCollaborators exampleNewPipeline)
        (Query (postRequest ''x'' [(''delay'', ''soon'')]) ''delay'') =
        (0, Some (Err ''time: invalid duration''))
   \<and> codes (fst (serveNewPipeline (exampleCollaborators exampleNewPipeline) emptyEngine
        (postRequest ''x'' [(''delay'', ''soon'')]))) = [400]
   \<and> creations (fst (serveNewPipeline (exampleCollaborators exampleNewPipeline) emptyEngine
        (postRequest ''x'' [(''delay'', ''soon'')]))) = []
   \<and> snd (serveNewPipeline (exampleCollaborators exampleNewPipeline) emptyEngine
        (postRequest ''x'' [(''delay'', ''soon'')])) = emptyEngine"
proof -
  let ?X = "exampleCollaborators exampleNewPipeline"
  let ?c1 = "postRequest ''x'' [(''params'', ''-v'')]"
  let ?c2 = "postRequest ''x'' [(''delay'', ''soon'')]"
  have r1: "ReadAll ?c1 = (''x'', None)" and r2: "ReadAll ?c2 = (''x'', None)"
    by (simp_all add: postRequest_def)
  have q1: "Query ?c1 ''delay'' = []" and q2: "Query ?c2 ''delay'' = ''soon''"
    and q3: "Query ?c1 ''params'' = ''-v''"
    by (simp_all add: postRequest_def Query_def)
  have s1: "Split ?X ''-v'' = ([''-v''], None)"
    by (simp add: exampleCollaborators_def exampleSplit_def)
  have p2: "ParseDuration ?X ''soon'' = (0, Some (Err ''time: invalid duration''))"
    by (simp add: exampleCollaborators_def exampleParseDuration_def)
  have n1: "NewPipeline ?X ''x'' 200000000 [''-v''] emptyEngine =
       ((Some \<lparr>Id_pipe = 0, Status = StatusPending\<rparr>, None),
        \<lparr>pipelines = [(0, \<lparr>Id_pipe = 0, Status = StatusPending\<rparr>)]\<rparr>)"
    by (simp add: example_defs Let_def)
  show ?thesis
    using serveNewPipeline_delay_default_or_rejected
            [OF r1, where params = "[''-v'']" and X = ?X and engine = emptyEngine]
          serveNewPipeline_delay_default_or_rejected
            [OF r2, where X = ?X and d = 0 and e = "Err ''time: invalid duration''"
              and engine = emptyEngine]
          r1 r2 q1 q2 q3 s1 p2 n1
    by simp
qed

text \<open>
  C6, as amended. Whenever the handler of POST /pipeline calls \<open>engine.NewPipeline\<close>, the
  delay it passes is the default of 200 milliseconds if the \<open>delay\<close> query parameter is
  absent or empty, and otherwise exactly the duration that parsing the parameter
  returned. It is non-negative whenever that duration is; the handler does not itself
  reject a negative duration.
\<close>

theorem serveNewPipeline_delay_passed:
  assumes "(script, delay, params) \<in> set (creations (fst (serveNewPipeline X engine c)))"
  shows "((Query c ''delay'' = [] \<and> delay = 200000000) \<or>
          (Query c ''delay'' \<noteq> [] \<and> ParseDuration X (Query c ''delay'') = (delay, None)))
       \<and> ((Query c ''delay'' = [] \<or> 0 \<le> fst (ParseDuration X (Query c ''delay'')))
            \<longrightarrow> 0 \<le> delay)"
  using assms
  by (auto simp: serveNewPipeline_def Let_def creations_append
      NewPipelineDelayQuery_def DefaultNewPipelineDelay_def Millisecond_def
      split: prod.splits option.splits if_splits)

theorem serveNewPipeline_delay_passed_witness:
  "(''x'', 200000000, [''-v'']) \<in> set (creations (fst
       (serveNewPipeline (exampleCollaborators exampleNewPipeline) emptyEngine
          (postRequest ''x'' [(''params'', ''-v'')]))))
   \<and> Query (postRequest ''x'' [(''params'', ''-v'')]) ''delay'' = []
   \<and> (0::int) \<le> 200000000"
proof -
  let ?X = "exampleCollaborators exampleNewPipeline"
  let ?c = "postRequest ''x'' [(''params'', ''-v'')]"
  have h: "(''x'', 200000000, [''-v'']) \<in> set (creations (fst
       (serveNewPipeline ?X emptyEngine ?c)))"
    by (simp add: post_default_delay)
  have q: "Query ?c ''delay'' = []"
    by (simp add: postRequest_def Query_def)
  show ?thesis using serveNewPipeline_delay_passed [OF h] h q by simp
qed

text \<open>
  C6, as claimed (the delay passed to pipeline creation is never negative), fails: the
  request with body \<open>x\<close> and \<open>delay=-1s\<close> passes every check, and the pipeline is created
  with a delay of minus one second.
\<close>

theorem serveNewPipeline_negative_delay_counterexample:
  "creations (fst (serveNewPipeline (exampleCollaborators exampleNewPipeline) emptyEngine
      (postRequest ''x'' [(''delay'', ''-1s'')]))) = [(''x'', - 1000000000, [])]
   \<and> \<not> (0::int) \<le> - 1000000000"
  by (simp add: post_negative_delay)



text \<open>
  C10. When \<open>engine.NewPipeline\<close> has been called and returns an error, the handler
  reads the \<open>Id\<close> field of the returned pipeline to build the 412 message: it
  dereferences nil exactly when the returned pipeline is nil, and with a pipeline object
  it replies 412 with that object's \<open>Id\<close> and the text of the error.
\<close>

theorem serveNewPipeline_error_path_reads_Id:
  assumes "(script, delay, params) \<in> set (creations (fst (serveNewPipeline X engine c)))"
    and "NewPipeline X script delay params engine = ((pipeline, Some e), engine')"
  shows "(NilDeref \<in> set (fst (serveNewPipeline X engine c)) \<longleftrightarrow> pipeline = None)
       \<and> (\<forall>p. pipeline = Some p \<longrightarrow>
             Reply 412 ''Error starting pipeline %v: %v'' [AInt (Id_pipe p), AStr (Error e)]
               \<in> set (fst (serveNewPipeline X engine c)))"
  using assms
  by (auto simp: serveNewPipeline_def Let_def creations_append StatusPreconditionFailed_def
      split: prod.splits option.splits if_splits)

theorem serveNewPipeline_error_path_reads_Id_witness:
  "(''x'', 200000000, []) \<in> set (creations (fst
       (serveNewPipeline (exampleCollaborators nilNewPipeline) emptyEngine
          (postRequest ''x'' []))))
   \<and> NewPipeline (exampleCollaborators nilNewPipeline) ''x'' 200000000 [] emptyEngine =
       ((None, Some (Err ''executable not found'')), emptyEngine)
   \<and> NilDeref \<in> set (fst (serveNewPipeline (exampleCollaborators nilNewPipeline) emptyEngine
          (postRequest ''x'' [])))
   \<and> (''x'', 200000000, []) \<in> set (creations (fst
       (serveNewPipeline (exampleCollaborators failingNewPipeline) emptyEngine
          (postRequest ''x'' []))))
   \<and> NewPipeline (exampleCollaborators failingNewPipeline) ''x'' 200000000 [] emptyEngine =
       ((Some \<lparr>Id_pipe = 0, Status = StatusFailed\<rparr>, Some (Err ''executable not found'')),
        emptyEngine)
   \<and> NilDeref \<notin> set (fst (serveNewPipeline (exampleCollaborators failingNewPipeline)
          emptyEngine (postRequest ''x'' [])))
   \<and> Reply 412 ''Error starting pipeline %v: %v'' [AInt 0, AStr ''executable not found'']
       \<in> set (fst (serveNewPipeline (exampleCollaborators failingNewPipeline)
          emptyEngine (postRequest ''x'' [])))"
proof -
  let ?N = "exampleCollaborators nilNewPipeline"
  let ?F = "exampleCollaborators failingNewPipeline"
  have h1: "(''x'', 200000000, []) \<in> set (creations (fst
       (serveNewPipeline ?N emptyEngine (postRequest ''x'' []))))"
    by (simp add: post_nil)
  have n1: "NewPipeline ?N ''x'' 200000000 [] emptyEngine =
       ((None, Some (Err ''executable not found'')), emptyEngine)"
    by (simp add: example_defs)
  have h2: "(''x'', 200000000, []) \<in> set (creations (fst
       (serveNewPipeline ?F emptyEngine (postRequest ''x'' []))))"
    by (simp add: post_failing)
  have n2: "NewPipeline ?F ''x'' 200000000 [] emptyEngine =
       ((Some \<lparr>Id_pipe = 0, Status = StatusFailed\<rparr>, Some (Err ''executable not found'')),
        emptyEngine)"
    by (simp add: example_defs)
  show ?thesis
    using serveNewPipeline_error_path_reads_Id [OF h1 n1]
          serveNewPipeline_error_path_reads_Id [OF h2 n2] h1 n1 h2 n2
    by simp
qed

end
